theory Spec2Isabelle
  imports
    Complex_Main
    "HOL-Library.Char_ord"
    "HOL-Library.List_Lexorder"
    "HOL-Library.Product_Lexorder"
    "HOL-Library.Sublist"
    "HOL-Library.AList"
    "HOL-Library.Multiset"
begin

section \<open>Python values used by the billing views\<close>

text \<open>
  The billing pipeline of \<^verbatim>\<open>billing/views.py\<close> is embedded function by function.
  Every exception the code can raise on the modelled paths is a value of \<open>py_error\<close>;
  a function that may raise returns \<open>py_error + 'a\<close> with \<open>Inl\<close> for the exception.
  Strings are \<open>char list\<close> compared as Python compares them (by code point,
  lexicographically). Amounts are exact rationals: sums and products are taken as the
  code takes them, and no step of the modelled code rounds. For the adjustment amounts,
  which are Python decimals, this is what the code computes; the binary rounding of the
  numbers held in the data frame is not modelled.
\<close>

datatype py_error = AttributeError | KeyError | ValueError | IndexError | DoesNotExist

definition is_digit :: "char \<Rightarrow> bool" where
  "is_digit c = (c \<in> set ''0123456789'')"

definition digit_val :: "char \<Rightarrow> nat" where
  "digit_val c = of_char c - 48"

definition digit_char :: "nat \<Rightarrow> char" where
  "digit_char d = ''0123456789'' ! d"

text \<open>\<^verbatim>\<open>str(n)\<close> for a natural number: its decimal digits, most significant first.\<close>

fun str_nat :: "nat \<Rightarrow> string" where
  "str_nat n = (if n < 10 then [digit_char n] else str_nat (n div 10) @ [digit_char (n mod 10)])"

declare str_nat.simps [simp del]

definition py_str :: "int \<Rightarrow> string" where
  "py_str v = (if v < 0 then CHR ''-'' # str_nat (nat (- v)) else str_nat (nat v))"

text \<open>
  The whitespace \<^verbatim>\<open>int()\<close> strips from both ends: space, the control characters
  9 to 13, and the characters \<^verbatim>\<open>0x85\<close> and \<^verbatim>\<open>0xA0\<close>.
\<close>

definition is_space :: "char \<Rightarrow> bool" where
  "is_space c = (let k = (of_char c :: nat) in k = 32 \<or> (9 \<le> k \<and> k \<le> 13) \<or> k = 133 \<or> k = 160)"

definition strip :: "string \<Rightarrow> string" where
  "strip s = rev (dropWhile is_space (rev (dropWhile is_space s)))"

text \<open>
  The digits of an integer literal after its first digit: a digit, or one underscore
  followed by a digit. The accumulator is the value read so far.
\<close>

fun after_digit :: "nat \<Rightarrow> string \<Rightarrow> nat option" where
  "after_digit acc [] = Some acc"
| "after_digit acc [c] = (if is_digit c then Some (10 * acc + digit_val c) else None)"
| "after_digit acc (c # d # cs) =
     (if is_digit c then after_digit (10 * acc + digit_val c) (d # cs)
      else if c = CHR ''_'' \<and> is_digit d then after_digit (10 * acc + digit_val d) cs
      else None)"

definition parse_digits :: "string \<Rightarrow> nat option" where
  "parse_digits s =
     (case s of
        [] \<Rightarrow> None
      | c # cs \<Rightarrow> if is_digit c then after_digit (digit_val c) cs else None)"

text \<open>
  \<^verbatim>\<open>int(s)\<close> on a string: surrounding whitespace is dropped, one sign is allowed,
  and anything else than a digit sequence raises \<^verbatim>\<open>ValueError\<close>.
\<close>

definition py_int :: "string \<Rightarrow> py_error + int" where
  "py_int s =
     (case strip s of
        [] \<Rightarrow> Inl ValueError
      | c # cs \<Rightarrow>
          if c = CHR ''-'' then
            (case parse_digits cs of None \<Rightarrow> Inl ValueError | Some n \<Rightarrow> Inr (- int n))
          else if c = CHR ''+'' then
            (case parse_digits cs of None \<Rightarrow> Inl ValueError | Some n \<Rightarrow> Inr (int n))
          else
            (case parse_digits (c # cs) of None \<Rightarrow> Inl ValueError | Some n \<Rightarrow> Inr (int n)))"

text \<open>The slices \<^verbatim>\<open>s[:-4]\<close> and \<^verbatim>\<open>s[-4:]\<close>; a string shorter than four
  characters has an empty \<^verbatim>\<open>s[:-4]\<close> and is its own \<^verbatim>\<open>s[-4:]\<close>.\<close>

definition but_last4 :: "string \<Rightarrow> string" where
  "but_last4 s = take (length s - 4) s"

definition last4 :: "string \<Rightarrow> string" where
  "last4 s = drop (length s - 4) s"

text \<open>
  \<^verbatim>\<open>'{}{:0>4}'.format(prefix, v)\<close>: the prefix, then \<^verbatim>\<open>str(v)\<close> right-aligned
  in a field of width 4 filled with zeros. A longer \<^verbatim>\<open>str(v)\<close> is not cut.
\<close>

definition rjust :: "nat \<Rightarrow> char \<Rightarrow> string \<Rightarrow> string" where
  "rjust w c s = replicate (w - length s) c @ s"

definition fmt :: "string \<Rightarrow> int \<Rightarrow> string" where
  "fmt pfx v = pfx @ rjust 4 CHR ''0'' (py_str v)"

text \<open>
  \<^verbatim>\<open>re.compile(r'\d+').findall(s)\<close>: the maximal runs of digits of \<open>s\<close>, from
  left to right. The first argument is the run being read.
\<close>

fun digit_runs :: "string \<Rightarrow> string \<Rightarrow> string list" where
  "digit_runs cur [] = (if cur = [] then [] else [cur])"
| "digit_runs cur (c # cs) =
     (if is_digit c then digit_runs (cur @ [c]) cs
      else (if cur = [] then [] else [cur]) @ digit_runs [] cs)"

definition findall_digits :: "string \<Rightarrow> string list" where
  "findall_digits s = digit_runs [] s"

text \<open>\<^verbatim>\<open>max(xs)\<close> of a list; the empty list raises \<^verbatim>\<open>ValueError\<close>.\<close>

definition py_max :: "'a::linorder list \<Rightarrow> py_error + 'a" where
  "py_max xs = (case xs of [] \<Rightarrow> Inl ValueError | x # ys \<Rightarrow> Inr (fold max ys x))"

section \<open>Invoice numbering\<close>

text \<open>
  Lines 225 to 228 of \<^verbatim>\<open>get_billing_data\<close>: the starting code is split into
  \<^verbatim>\<open>prefix = invoice_start[:-4]\<close> and \<^verbatim>\<open>sequence = int(invoice_start[-4:])\<close>, and
  one code is formatted for each number of \<^verbatim>\<open>range(sequence, sequence + n)\<close>, where
  \<open>n\<close> is the number of distinct accounts of the category.
\<close>

definition sequence_range :: "int \<Rightarrow> nat \<Rightarrow> int list" where
  "sequence_range sequence n = map (\<lambda>i. sequence + int i) [0..<n]"

definition invoice_no_range :: "string \<Rightarrow> nat \<Rightarrow> py_error + string list" where
  "invoice_no_range invoice_start n =
     (case py_int (last4 invoice_start) of
        Inl e \<Rightarrow> Inl e
      | Inr sequence \<Rightarrow> Inr (map (fmt (but_last4 invoice_start)) (sequence_range sequence n)))"

text \<open>
  Lines 614 to 617 of \<^verbatim>\<open>invoices\<close>: every digit run of every submitted invoice
  number is collected, the greatest of them (as a string) is taken, and the new starting
  code is that run with its last four digits, read as a number, increased by one.
\<close>

definition next_invoice_start :: "string list \<Rightarrow> py_error + string" where
  "next_invoice_start invoice_no_values =
     (case py_max (concat (map findall_digits invoice_no_values)) of
        Inl e \<Rightarrow> Inl e
      | Inr last_invoice_no \<Rightarrow>
          (case py_int (last4 last_invoice_no) of
             Inl e \<Rightarrow> Inl e
           | Inr k \<Rightarrow> Inr (fmt (but_last4 last_invoice_no) (k + 1))))"

section \<open>The joined job table\<close>

text \<open>
  A row of the job query (\<^verbatim>\<open>get_vistar_billing_df\<close>) and a row of the account
  reference query (\<^verbatim>\<open>get_macola_df\<close>). Both queries are run by the database; their
  results are the input of the model. The category column \<^verbatim>\<open>cat\<close>, which the
  code sorts and groups by, comes with the job rows. A provider or tax rate that the
  reference table leaves empty is \<open>None\<close>.
\<close>

record job =
  acct :: string
  job_id :: int
  cat :: int
  enter_date :: string
  frame_name :: string
  frame_item_no :: string
  frame_name2 :: string
  comment1 :: string
  ship_date :: string
  patient_name :: string
  lens_price :: rat
  frame_price :: rat
  sales :: rat

record macola_row =
  ma_acct :: string
  ma_provider :: "int option"
  ma_tax_rate :: "rat option"

record billing_row = job +
  provider :: int
  tax_rate :: rat
  tax :: rat
  total :: rat

text \<open>
  \<^verbatim>\<open>pd.merge(left, right, on='acct')\<close>: the inner join. Each job row is paired with
  every reference row of its account number, in the order of the job rows; a job row
  with no reference row yields nothing.
\<close>

definition pd_merge :: "job list \<Rightarrow> macola_row list \<Rightarrow> (job \<times> macola_row) list" where
  "pd_merge left right =
     concat (map (\<lambda>l. map (Pair l) (filter (\<lambda>r. ma_acct r = acct l) right)) left)"

text \<open>\<^verbatim>\<open>fillna(0)\<close> on one value.\<close>

definition fillna :: "'a::zero option \<Rightarrow> 'a" where
  "fillna v = (case v of None \<Rightarrow> 0 | Some x \<Rightarrow> x)"

text \<open>
  Lines 212 to 215 on one joined row: the two columns are filled, then
  \<^verbatim>\<open>tax = sales * tax_rate\<close> and \<^verbatim>\<open>total = (1 + tax_rate) * sales\<close>.
\<close>

definition derive_row :: "job \<times> macola_row \<Rightarrow> billing_row" where
  "derive_row jm =
     (let j = fst jm; m = snd jm;
          rate = fillna (ma_tax_rate m);
          prov = fillna (ma_provider m)
      in job.extend j (billing_row.fields prov rate (sales j * rate) ((1 + rate) * sales j)))"

text \<open>
  \<^verbatim>\<open>sort_values(by=['cat', 'provider', 'acct', 'ship_date', 'patient_name'])\<close>: the
  rows in ascending order of the five columns, compared from left to right; rows that
  agree on all five keep their order. The dates are the \<^verbatim>\<open>mm/dd/yyyy\<close> strings of
  the query and are compared as strings.
\<close>

definition sort_by :: "billing_row \<Rightarrow> int \<times> int \<times> string \<times> string \<times> string" where
  "sort_by r = (cat r, provider r, acct r, ship_date r, patient_name r)"

definition sort_values :: "billing_row list \<Rightarrow> billing_row list" where
  "sort_values df = sort_key sort_by df"

text \<open>The branch \<^verbatim>\<open>from_cache=False\<close> of \<^verbatim>\<open>get_billing_data\<close>, lines 211 to 216.\<close>

definition merged_df :: "job list \<Rightarrow> macola_row list \<Rightarrow> billing_row list" where
  "merged_df jobs macola = sort_values (map derive_row (pd_merge jobs macola))"

section \<open>Grouping and totals\<close>

text \<open>
  \<^verbatim>\<open>series.drop_duplicates()\<close>: the first occurrence of every value, in order.
\<close>

definition drop_duplicates :: "'a list \<Rightarrow> 'a list" where
  "drop_duplicates xs = rev (remdups (rev xs))"

text \<open>
  \<^verbatim>\<open>df.groupby(col)\<close>: one group for each value of the column, the groups in
  ascending order of the value, the rows of a group in their order in \<open>df\<close>.
\<close>

definition groupby :: "('a \<Rightarrow> 'k::linorder) \<Rightarrow> 'a list \<Rightarrow> ('k \<times> 'a list) list" where
  "groupby col df = map (\<lambda>k. (k, filter (\<lambda>r. col r = k) df)) (sort (remdups (map col df)))"

text \<open>
  A model instance fetched for the run, with the three attributes \<^verbatim>\<open>sales\<close>,
  \<^verbatim>\<open>tax\<close> and \<^verbatim>\<open>total\<close> that \<^verbatim>\<open>set_totals\<close> attaches (absent until then).
\<close>

record totals =
  obj_sales :: rat
  obj_tax :: rat
  obj_total :: rat

record 'a entity =
  model :: 'a
  attached :: "totals option"

definition get_object :: "('k \<rightharpoonup> 'a) \<Rightarrow> 'k \<Rightarrow> 'a entity option" where
  "get_object queryset pk =
     (case queryset pk of
        None \<Rightarrow> None
      | Some m \<Rightarrow> Some \<lparr>model = m, attached = None\<rparr>)"

definition set_totals :: "'a entity option \<Rightarrow> 'b billing_row_scheme list \<Rightarrow> 'a entity option" where
  "set_totals obj data_df =
     (case obj of
        None \<Rightarrow> None
      | Some e \<Rightarrow>
          (let sales_sum = sum_list (map sales data_df);
               tax_sum = sum_list (map tax data_df)
           in Some (e\<lparr>attached :=
                Some \<lparr>obj_sales = sales_sum, obj_tax = tax_sum, obj_total = sales_sum + tax_sum\<rparr>\<rparr>)))"

section \<open>The review step\<close>

text \<open>
  The tables of the relational store that the views read: invoice categories and
  bill-to providers by primary key, accounts by account number. Only the fields that
  the modelled code branches on are kept.
\<close>

record category =
  number :: int
  description :: string
  invoice_start :: string

record bill_to_provider =
  p_name :: string
  p_short_name :: string

record macola_acct =
  a_name :: string
  a_short_name :: string

text \<open>
  What \<^verbatim>\<open>get_billing_data\<close> builds for the template, as the nesting of its three
  loops: for each category its object, the proposed invoice numbers and its providers;
  for each provider its object (none for provider 0) and its accounts; for each account
  its object, the initial value of its invoice number form and its job rows. The forms
  and flags made only for rendering are left out.
\<close>

record acct_entry =
  ae_acct_no :: string
  ae_acct_obj :: "macola_acct entity"
  ae_invoice_no :: string
  ae_jobs :: "billing_row list"

record provider_entry =
  pe_provider_id :: int
  pe_provider_obj :: "bill_to_provider entity option"
  pe_accts :: "acct_entry list"

record cat_entry =
  ce_cat_id :: int
  ce_cat_obj :: "category entity"
  ce_invoice_no_range :: "string list"
  ce_providers :: "provider_entry list"

text \<open>
  The account loop, lines 240 to 257. \<open>idx\<close> is \<^verbatim>\<open>invoice_no_idx\<close>, which
  runs on through the providers of a category. \<^verbatim>\<open>invoice_no_forms[invoice_no_idx]\<close>
  raises \<^verbatim>\<open>IndexError\<close> past the end of the list, and the assignment to an account
  that does not exist raises \<^verbatim>\<open>AttributeError\<close>.
\<close>

fun acct_loop ::
  "(string \<rightharpoonup> macola_acct) \<Rightarrow> string list \<Rightarrow> nat \<Rightarrow> (string \<times> billing_row list) list \<Rightarrow>
   py_error + (acct_entry list \<times> nat)" where
  "acct_loop all_accts invoice_no_forms idx [] = Inr ([], idx)"
| "acct_loop all_accts invoice_no_forms idx ((acct_no, acct_df) # groups) =
     (if length invoice_no_forms \<le> idx then Inl IndexError
      else
        (case set_totals (get_object all_accts acct_no) acct_df of
           None \<Rightarrow> Inl AttributeError
         | Some acct_obj \<Rightarrow>
             (case acct_loop all_accts invoice_no_forms (idx + 1) groups of
                Inl e \<Rightarrow> Inl e
              | Inr (entries, idx') \<Rightarrow>
                  Inr (\<lparr>ae_acct_no = acct_no, ae_acct_obj = acct_obj,
                        ae_invoice_no = invoice_no_forms ! idx, ae_jobs = acct_df\<rparr> # entries,
                       idx'))))"

text \<open>The provider loop, lines 237 to 239.\<close>

fun provider_loop ::
  "(int \<rightharpoonup> bill_to_provider) \<Rightarrow> (string \<rightharpoonup> macola_acct) \<Rightarrow> string list \<Rightarrow> nat \<Rightarrow>
   (int \<times> billing_row list) list \<Rightarrow> py_error + provider_entry list" where
  "provider_loop all_providers all_accts invoice_no_forms idx [] = Inr []"
| "provider_loop all_providers all_accts invoice_no_forms idx ((provider_id, provider_df) # groups) =
     (case acct_loop all_accts invoice_no_forms idx (groupby acct provider_df) of
        Inl e \<Rightarrow> Inl e
      | Inr (entries, idx') \<Rightarrow>
          (case provider_loop all_providers all_accts invoice_no_forms idx' groups of
             Inl e \<Rightarrow> Inl e
           | Inr rest \<Rightarrow>
               Inr (\<lparr>pe_provider_id = provider_id,
                     pe_provider_obj = set_totals (get_object all_providers provider_id) provider_df,
                     pe_accts = entries\<rparr> # rest)))"

text \<open>
  The body of the category loop, lines 223 to 236. \<open>clean_data\<close> maps \<open>k\<close> to the
  submitted value of the form field \<^verbatim>\<open>start_k\<close>; it is read at the category's
  \<^verbatim>\<open>number\<close>. A category that does not exist raises \<^verbatim>\<open>AttributeError\<close> there.
\<close>

definition cat_step ::
  "(int \<rightharpoonup> category) \<Rightarrow> (int \<rightharpoonup> bill_to_provider) \<Rightarrow> (string \<rightharpoonup> macola_acct) \<Rightarrow>
   (int \<rightharpoonup> string) \<Rightarrow> int \<times> billing_row list \<Rightarrow> py_error + cat_entry" where
  "cat_step all_inv_cats all_providers all_accts clean_data grp =
     (let inv_cat_id = fst grp; inv_cat_df = snd grp in
      case set_totals (get_object all_inv_cats inv_cat_id) inv_cat_df of
        None \<Rightarrow> Inl AttributeError
      | Some inv_cat_obj \<Rightarrow>
          (case clean_data (number (model inv_cat_obj)) of
             None \<Rightarrow> Inl KeyError
           | Some start \<Rightarrow>
               (case invoice_no_range start (length (drop_duplicates (map acct inv_cat_df))) of
                  Inl e \<Rightarrow> Inl e
                | Inr nos \<Rightarrow>
                    (case provider_loop all_providers all_accts nos 0 (groupby provider inv_cat_df) of
                       Inl e \<Rightarrow> Inl e
                     | Inr entries \<Rightarrow>
                         Inr \<lparr>ce_cat_id = inv_cat_id, ce_cat_obj = inv_cat_obj,
                              ce_invoice_no_range = nos, ce_providers = entries\<rparr>))))"

fun cat_loop ::
  "(int \<rightharpoonup> category) \<Rightarrow> (int \<rightharpoonup> bill_to_provider) \<Rightarrow> (string \<rightharpoonup> macola_acct) \<Rightarrow>
   (int \<rightharpoonup> string) \<Rightarrow> (int \<times> billing_row list) list \<Rightarrow> py_error + cat_entry list" where
  "cat_loop all_inv_cats all_providers all_accts clean_data [] = Inr []"
| "cat_loop all_inv_cats all_providers all_accts clean_data (grp # groups) =
     (case cat_step all_inv_cats all_providers all_accts clean_data grp of
        Inl e \<Rightarrow> Inl e
      | Inr entry \<Rightarrow>
          (case cat_loop all_inv_cats all_providers all_accts clean_data groups of
             Inl e \<Rightarrow> Inl e
           | Inr rest \<Rightarrow> Inr (entry # rest)))"

text \<open>The application state: the three tables and the snapshot \<^verbatim>\<open>billing_data\<close>.\<close>

record state =
  categories :: "int \<rightharpoonup> category"
  providers :: "int \<rightharpoonup> bill_to_provider"
  accounts :: "string \<rightharpoonup> macola_acct"
  cache :: "billing_row list"

text \<open>\<^verbatim>\<open>get_billing_data\<close> from line 218 on, for the joined table \<open>merged\<close>.\<close>

definition get_billing_data ::
  "state \<Rightarrow> (int \<rightharpoonup> string) \<Rightarrow> billing_row list \<Rightarrow> py_error + cat_entry list" where
  "get_billing_data st clean_data merged =
     cat_loop (categories st) (providers st) (accounts st) clean_data (groupby cat merged)"

text \<open>
  \<^verbatim>\<open>form_valid\<close>: without the account \<^verbatim>\<open>ici\<close> the form is shown again and
  nothing is queried (\<open>None\<close>); otherwise the joined table is computed and written to
  the snapshot before the groups are built.
\<close>

definition form_valid ::
  "state \<Rightarrow> (int \<rightharpoonup> string) \<Rightarrow> job list \<Rightarrow> macola_row list \<Rightarrow>
   (py_error + cat_entry list) option \<times> state" where
  "form_valid st clean_data jobs macola =
     (case accounts st ''ici'' of
        None \<Rightarrow> (None, st)
      | Some ici \<Rightarrow>
          (let merged = merged_df jobs macola
           in (Some (get_billing_data st clean_data merged), st\<lparr>cache := merged\<rparr>)))"

section \<open>Submitted forms\<close>

text \<open>
  A bound form or formset after Django's validation: invalid, or valid with its
  \<^verbatim>\<open>cleaned_data\<close>. The cleaned data of a formset is a list with one entry for
  each form; an untouched extra form gives the empty dictionary, here \<open>None\<close>.
\<close>

datatype 'a bound_form = Invalid | Valid 'a

datatype kind = Credit | Debit

record adjustment =
  kind :: kind
  ref :: string
  des :: string
  amount :: rat

text \<open>
  What \<^verbatim>\<open>validate_form\<close> returns for a formset: the bound formset itself when it
  is invalid, \<^verbatim>\<open>None\<close> when no form holds data, and otherwise a frame (or the
  column asked for) of the non-empty entries.
\<close>

datatype 'a validated = Form | NoData | Frame "'a list"

definition validate_form :: "'a option list bound_form \<Rightarrow> 'a validated" where
  "validate_form bound_form =
     (case bound_form of
        Invalid \<Rightarrow> Form
      | Valid clean_data \<Rightarrow>
          (let filtered = map the (filter (\<lambda>d. d \<noteq> None) clean_data)
           in if filtered = [] then NoData else Frame filtered))"

text \<open>
  Line 277, for an adjustment formset only:
  \<^verbatim>\<open>amount * kind.map({'Credit': -1, 'Debit': 1})\<close>.
\<close>

definition signed :: "adjustment \<Rightarrow> adjustment" where
  "signed a = a\<lparr>amount := amount a * (case kind a of Credit \<Rightarrow> - 1 | Debit \<Rightarrow> 1)\<rparr>"

definition validate_adjustments :: "adjustment option list bound_form \<Rightarrow> adjustment validated" where
  "validate_adjustments bound_form =
     (case validate_form bound_form of
        Frame clean_data \<Rightarrow> Frame (map signed clean_data)
      | v \<Rightarrow> v)"

text \<open>\<^verbatim>\<open>.tolist()\<close> on the result: only a column has that method.\<close>

definition tolist :: "'a validated \<Rightarrow> py_error + 'a list" where
  "tolist v = (case v of Frame xs \<Rightarrow> Inr xs | _ \<Rightarrow> Inl AttributeError)"

datatype action = Register | Invoices | Summary | Credit_request

record savepath =
  save_to :: string
  invoice_date :: string

text \<open>
  The data of a generation request: the category, the invoice number formset, the
  save-path form, and for each account number its inclusion formset and its adjustment
  formset; \<open>submit\<close> is the generation method named by the button.
\<close>

record post_data =
  cat_id :: int
  inv_formset :: "string option list bound_form"
  savepath_form :: "savepath bound_form"
  include_formsets :: "string \<Rightarrow> bool option list bound_form"
  adj_formsets :: "string \<Rightarrow> adjustment option list bound_form"
  submit :: action

text \<open>
  \<^verbatim>\<open>df[flags]\<close> with a Python list. A non-empty list of booleans is a row mask:
  the result holds the rows whose flag is true, in their order, and a list of another
  length than the frame raises \<^verbatim>\<open>ValueError\<close>. The empty list is no mask:
  pandas reads it as a selection of columns, and the result is the frame without any
  of its columns, whatever its rows were.
\<close>

datatype 'a selection = Rows "'a list" | No_columns

definition boolean_mask :: "'a list \<Rightarrow> bool list \<Rightarrow> py_error + 'a selection" where
  "boolean_mask df flags =
     (if flags = [] then Inr No_columns
      else if length flags \<noteq> length df then Inl ValueError
      else Inr (Rows (map fst (filter snd (zip df flags)))))"

text \<open>
  \<^verbatim>\<open>billing_data.groupby(col)\<close> on what \<^verbatim>\<open>post\<close> passes on: a frame without
  columns has no column to group by.
\<close>

definition groupby_selection ::
  "('a \<Rightarrow> 'k::linorder) \<Rightarrow> 'a selection \<Rightarrow> py_error + ('k \<times> 'a list) list" where
  "groupby_selection col sel =
     (case sel of No_columns \<Rightarrow> Inl KeyError | Rows df \<Rightarrow> Inr (groupby col df))"

text \<open>
  The loop of \<^verbatim>\<open>post\<close>, lines 336 to 342, over the accounts of the category paired
  with the submitted invoice numbers. It returns the inclusion mask and the two
  dictionaries \<^verbatim>\<open>adjustments\<close> and \<^verbatim>\<open>invoice_nos\<close> as association lists in
  insertion order (the account numbers are distinct). An adjustment formset that
  gives no frame, whether empty or invalid, is stored as \<^verbatim>\<open>None\<close>.
\<close>

fun post_loop ::
  "post_data \<Rightarrow> (string \<times> string) list \<Rightarrow>
   py_error + (bool list \<times> (string \<times> adjustment list option) list \<times> (string \<times> string) list)" where
  "post_loop req [] = Inr ([], [], [])"
| "post_loop req ((acct_no, invoice_no) # rest) =
     (case tolist (validate_form (include_formsets req acct_no)) of
        Inl e \<Rightarrow> Inl e
      | Inr included \<Rightarrow>
          (let adj_formset_clean_data = validate_adjustments (adj_formsets req acct_no);
               adj = (case adj_formset_clean_data of Frame adj_df \<Rightarrow> Some adj_df | _ \<Rightarrow> None)
           in case post_loop req rest of
                Inl e \<Rightarrow> Inl e
              | Inr (include_job_mask, adjustments, invoice_nos) \<Rightarrow>
                  Inr (included @ include_job_mask,
                       (acct_no, adj) # adjustments,
                       (acct_no, invoice_no) # invoice_nos)))"

section \<open>The generation actions\<close>

text \<open>
  A dictionary lookup \<^verbatim>\<open>d[k]\<close>.
\<close>

definition getitem :: "('k \<times> 'v) list \<Rightarrow> 'k \<Rightarrow> py_error + 'v" where
  "getitem d k = (case map_of d k of None \<Rightarrow> Inl KeyError | Some v \<Rightarrow> Inr v)"

text \<open>
  \<^verbatim>\<open>adj_df.amount.sum() if isinstance(adj_df, pd.DataFrame) else 0\<close>, and the
  total printed for an account: \<^verbatim>\<open>Dec(acct_obj.total) + acct_adjs\<close>
  (line 389 of \<^verbatim>\<open>register\<close>, line 589 of \<^verbatim>\<open>invoices\<close>).
\<close>

definition acct_adjs_sum :: "adjustment list option \<Rightarrow> rat" where
  "acct_adjs_sum adj_df = (case adj_df of Some df \<Rightarrow> sum_list (map amount df) | None \<Rightarrow> 0)"

definition adjusted_total :: "rat \<Rightarrow> adjustment list option \<Rightarrow> rat" where
  "adjusted_total acct_total adj_df = acct_total + acct_adjs_sum adj_df"

definition included_accts :: "(string \<times> string) list \<Rightarrow> string list" where
  "included_accts invoice_nos = map fst (filter (\<lambda>kv. snd kv \<noteq> []) invoice_nos)"

text \<open>
  The rows of the register table, with the amounts as they are before they are
  formatted as currency: an account row (invoice number text, account number, sales,
  tax, adjustments, total), a provider subtotal row and the final totals row.
\<close>

datatype register_row =
    AcctRow string string rat rat rat rat
  | SubtotalRow rat rat rat rat
  | TotalRow rat rat rat rat

text \<open>
  The account loop of \<^verbatim>\<open>register\<close>, lines 372 to 391: the rows and the list
  \<^verbatim>\<open>prov_adjs\<close>.
\<close>

fun register_accts ::
  "(string \<rightharpoonup> macola_acct) \<Rightarrow> (string \<times> adjustment list option) list \<Rightarrow> (string \<times> string) list \<Rightarrow>
   (string \<times> billing_row list) list \<Rightarrow> py_error + (register_row list \<times> rat list)" where
  "register_accts all_accounts adjustments invoice_nos [] = Inr ([], [])"
| "register_accts all_accounts adjustments invoice_nos ((acct_no, acct_df) # groups) =
     (case getitem adjustments acct_no of
        Inl e \<Rightarrow> Inl e
      | Inr adj_df \<Rightarrow>
          if acct_no \<notin> set (included_accts invoice_nos) then
            register_accts all_accounts adjustments invoice_nos groups
          else
            (case set_totals (get_object all_accounts acct_no) acct_df of
               None \<Rightarrow> Inl AttributeError
             | Some acct_obj \<Rightarrow>
                 (case attached acct_obj of
                    None \<Rightarrow> Inl AttributeError
                  | Some t \<Rightarrow>
                      (case getitem invoice_nos acct_no of
                         Inl e \<Rightarrow> Inl e
                       | Inr invoice_no \<Rightarrow>
                           (case register_accts all_accounts adjustments invoice_nos groups of
                              Inl e \<Rightarrow> Inl e
                            | Inr (rows, prov_adjs) \<Rightarrow>
                                Inr (AcctRow
                                       (map (\<lambda>c. if c = CHR '','' then CHR 0x0A else c) invoice_no)
                                       acct_no (obj_sales t) (obj_tax t) (acct_adjs_sum adj_df)
                                       (adjusted_total (obj_total t) adj_df) # rows,
                                     acct_adjs_sum adj_df # prov_adjs))))))"

text \<open>
  The provider loop of \<^verbatim>\<open>register\<close>, lines 368 to 407: the rows and the list
  \<^verbatim>\<open>total_adjs\<close>. For a provider without a short name the code reads
  \<^verbatim>\<open>provider_df.name\<close>, a column the frame does not have.
\<close>

fun register_providers ::
  "state \<Rightarrow> (string \<times> adjustment list option) list \<Rightarrow> (string \<times> string) list \<Rightarrow>
   (int \<times> billing_row list) list \<Rightarrow> py_error + (register_row list \<times> rat list)" where
  "register_providers st adjustments invoice_nos [] = Inr ([], [])"
| "register_providers st adjustments invoice_nos ((provider_id, provider_df) # groups) =
     (case register_accts (accounts st) adjustments invoice_nos (groupby acct provider_df) of
        Inl e \<Rightarrow> Inl e
      | Inr (acct_rows, prov_adjs) \<Rightarrow>
          (let prov_adj_sum = sum_list prov_adjs;
               included_prov_acct_df =
                 filter (\<lambda>r. acct r \<in> set (included_accts invoice_nos)) provider_df;
               subtotal = SubtotalRow (sum_list (map sales included_prov_acct_df))
                            (sum_list (map tax included_prov_acct_df)) prov_adj_sum
                            (sum_list (map total included_prov_acct_df) + prov_adj_sum)
           in case set_totals (get_object (providers st) provider_id) provider_df of
                Some provider_obj \<Rightarrow>
                  if p_short_name (model provider_obj) = [] then Inl AttributeError
                  else
                    (case register_providers st adjustments invoice_nos groups of
                       Inl e \<Rightarrow> Inl e
                     | Inr (rows, total_adjs) \<Rightarrow>
                         Inr (acct_rows @ subtotal # rows, prov_adj_sum # total_adjs))
              | None \<Rightarrow>
                  (case register_providers st adjustments invoice_nos groups of
                     Inl e \<Rightarrow> Inl e
                   | Inr (rows, total_adjs) \<Rightarrow>
                       Inr (acct_rows @ rows, prov_adj_sum # total_adjs))))"

text \<open>
  \<^verbatim>\<open>register\<close>: the table, then the response header, which reads the description
  of the category object.
\<close>

definition register ::
  "state \<Rightarrow> int \<Rightarrow> billing_row selection \<Rightarrow> (string \<times> adjustment list option) list \<Rightarrow>
   (string \<times> string) list \<Rightarrow> py_error + register_row list" where
  "register st cid sel adjustments invoice_nos =
     (case sel of
        No_columns \<Rightarrow> Inl KeyError
      | Rows billing_data \<Rightarrow>
          (case register_providers st adjustments invoice_nos (groupby provider billing_data) of
             Inl e \<Rightarrow> Inl e
           | Inr (rows, total_adjs) \<Rightarrow>
               (let included_total_acct_df =
                      filter (\<lambda>r. acct r \<in> set (included_accts invoice_nos)) billing_data;
                    total_adj_sum = sum_list total_adjs;
                    sales_sum = sum_list (map sales included_total_acct_df);
                    tax_sum = sum_list (map tax included_total_acct_df)
                in case categories st cid of
                     None \<Rightarrow> Inl AttributeError
                   | Some cat_obj \<Rightarrow>
                       Inr (rows @ [TotalRow sales_sum tax_sum total_adj_sum
                                      (sales_sum + tax_sum + total_adj_sum)]))))"

text \<open>
  \<^verbatim>\<open>invoices\<close>. Line 450 binds both \<^verbatim>\<open>all_providers\<close> and
  \<^verbatim>\<open>all_accounts\<close> to the pair of query sets, so the first pass of the provider
  loop, which calls \<^verbatim>\<open>get_object(all_providers, provider_id)\<close> and there
  \<^verbatim>\<open>queryset.filter\<close>, raises \<^verbatim>\<open>AttributeError\<close>. With no row left to group the
  loop is skipped, the combined document is built, and lines 614 to 618 store the new
  starting code in the category fetched by \<^verbatim>\<open>post\<close>.
\<close>

definition invoices ::
  "state \<Rightarrow> int \<Rightarrow> billing_row selection \<Rightarrow> (string \<times> adjustment list option) list \<Rightarrow>
   (string \<times> string) list \<Rightarrow> py_error + state" where
  "invoices st cid sel adjustments invoice_nos =
     (case categories st cid of
        None \<Rightarrow> Inl AttributeError
      | Some category_obj \<Rightarrow>
          (case accounts st ''ici'' of
             None \<Rightarrow> Inl AttributeError
           | Some ici \<Rightarrow>
               (case groupby_selection provider sel of
                  Inl e \<Rightarrow> Inl e
                | Inr (grp # groups) \<Rightarrow> Inl AttributeError
                | Inr [] \<Rightarrow>
                    (case next_invoice_start (map snd invoice_nos) of
                       Inl e \<Rightarrow> Inl e
                     | Inr new_start \<Rightarrow>
                         Inr (st\<lparr>categories :=
                                (categories st)(cid \<mapsto> category_obj\<lparr>invoice_start := new_start\<rparr>)\<rparr>)))))"

text \<open>
  The rows written to a provider's worksheet by \<^verbatim>\<open>summary\<close>: a job line (invoice
  number, account number, shipped-to name, job id, patient name, ship date, lens price,
  frame price, sales) or an adjustment line (invoice number, account number, name,
  reference, description, kind, amount). The frame style column is left out.
\<close>

datatype summary_row =
    JobLine string string string int string string rat rat rat
  | AdjLine string string string string string kind rat

text \<open>\<^verbatim>\<open>a or b\<close> on two strings.\<close>

definition str_or :: "string \<Rightarrow> string \<Rightarrow> string" where
  "str_or a b = (if a \<noteq> [] then a else b)"

text \<open>
  The account loop of \<^verbatim>\<open>summary\<close>, lines 706 to 743. Line 707 reads both
  dictionaries at the string \<^verbatim>\<open>'acct_no'\<close>.
\<close>

fun summary_accts ::
  "(string \<rightharpoonup> macola_acct) \<Rightarrow> (string \<times> adjustment list option) list \<Rightarrow> (string \<times> string) list \<Rightarrow>
   (string \<times> billing_row list) list \<Rightarrow> py_error + summary_row list" where
  "summary_accts all_accounts adjustments invoice_nos [] = Inr []"
| "summary_accts all_accounts adjustments invoice_nos ((acct_no, acct_df) # groups) =
     (case getitem invoice_nos ''acct_no'' of
        Inl e \<Rightarrow> Inl e
      | Inr invoice_no \<Rightarrow>
          (case getitem adjustments ''acct_no'' of
             Inl e \<Rightarrow> Inl e
           | Inr acct_adjs \<Rightarrow>
               if invoice_no = [] then summary_accts all_accounts adjustments invoice_nos groups
               else
                 (case all_accounts acct_no of
                    None \<Rightarrow> Inl DoesNotExist
                  | Some a \<Rightarrow>
                      (let name = str_or (a_short_name a) (a_name a);
                           job_lines =
                             map (\<lambda>j. JobLine invoice_no acct_no name (job_id j) (patient_name j)
                                        (ship_date j) (lens_price j) (frame_price j) (sales j))
                               acct_df;
                           adj_lines =
                             (case acct_adjs of
                                None \<Rightarrow> []
                              | Some adjs \<Rightarrow>
                                  map (\<lambda>adj. AdjLine invoice_no acct_no name (ref adj) (des adj)
                                          (kind adj) (amount adj))
                                    adjs)
                       in case summary_accts all_accounts adjustments invoice_nos groups of
                            Inl e \<Rightarrow> Inl e
                          | Inr rows \<Rightarrow> Inr (job_lines @ adj_lines @ rows)))))"

text \<open>
  \<^verbatim>\<open>summary\<close>: one worksheet for each provider group, named by the provider, which
  \<^verbatim>\<open>all_providers.get\<close> must find.
\<close>

fun summary_providers ::
  "state \<Rightarrow> (string \<times> adjustment list option) list \<Rightarrow> (string \<times> string) list \<Rightarrow>
   (int \<times> billing_row list) list \<Rightarrow> py_error + (string \<times> summary_row list) list" where
  "summary_providers st adjustments invoice_nos [] = Inr []"
| "summary_providers st adjustments invoice_nos ((provider_id, provider_df) # groups) =
     (case providers st provider_id of
        None \<Rightarrow> Inl DoesNotExist
      | Some p \<Rightarrow>
          (case summary_accts (accounts st) adjustments invoice_nos (groupby acct provider_df) of
             Inl e \<Rightarrow> Inl e
           | Inr rows \<Rightarrow>
               (case summary_providers st adjustments invoice_nos groups of
                  Inl e \<Rightarrow> Inl e
                | Inr sheets \<Rightarrow> Inr ((str_or (p_short_name p) (take 10 (p_name p)), rows) # sheets))))"

definition summary ::
  "state \<Rightarrow> billing_row selection \<Rightarrow> (string \<times> adjustment list option) list \<Rightarrow> (string \<times> string) list \<Rightarrow>
   py_error + (string \<times> summary_row list) list" where
  "summary st sel adjustments invoice_nos =
     (case groupby_selection provider sel of
        Inl e \<Rightarrow> Inl e
      | Inr groups \<Rightarrow> summary_providers st adjustments invoice_nos groups)"

text \<open>
  \<^verbatim>\<open>credit\<close>: line 765 reads both dictionaries at the string \<^verbatim>\<open>'acct_no'\<close>;
  the memo lists the adjustment rows found there. The credit button of the request is
  taken to name an account, so that line 764, which only reads that name for the text
  of the memo, succeeds.
\<close>

definition credit ::
  "state \<Rightarrow> (string \<times> adjustment list option) list \<Rightarrow> (string \<times> string) list \<Rightarrow>
   py_error + adjustment list" where
  "credit st adjustments invoice_nos =
     (case getitem adjustments ''acct_no'' of
        Inl e \<Rightarrow> Inl e
      | Inr acct_adjs_df \<Rightarrow>
          (case getitem invoice_nos ''acct_no'' of
             Inl e \<Rightarrow> Inl e
           | Inr acct_inv_no \<Rightarrow>
               (case accounts st ''ici'' of
                  None \<Rightarrow> Inl AttributeError
                | Some ici \<Rightarrow>
                    (case acct_adjs_df of
                       None \<Rightarrow> Inl AttributeError
                     | Some adjs \<Rightarrow> Inr adjs))))"

section \<open>The generation request\<close>

datatype response =
    FormInvalid
  | RegisterPdf "register_row list"
  | InvoicesPdf
  | SummaryXlsx "(string \<times> summary_row list) list"
  | CreditPdf "adjustment list"

text \<open>
  The call \<^verbatim>\<open>getattr(self, misc_submits.pop())(billing_data[include_job_mask],
  adjustments, invoice_nos)\<close> for the four generation methods. Only \<^verbatim>\<open>invoices\<close>
  returns a new state.
\<close>

definition dispatch ::
  "state \<Rightarrow> post_data \<Rightarrow> billing_row selection \<Rightarrow> (string \<times> adjustment list option) list \<Rightarrow>
   (string \<times> string) list \<Rightarrow> py_error + (response \<times> state)" where
  "dispatch st req billing_data adjustments invoice_nos =
     (case submit req of
        Register \<Rightarrow>
          (case register st (cat_id req) billing_data adjustments invoice_nos of
             Inl e \<Rightarrow> Inl e | Inr rows \<Rightarrow> Inr (RegisterPdf rows, st))
      | Invoices \<Rightarrow>
          (case invoices st (cat_id req) billing_data adjustments invoice_nos of
             Inl e \<Rightarrow> Inl e | Inr st' \<Rightarrow> Inr (InvoicesPdf, st'))
      | Summary \<Rightarrow>
          (case summary st billing_data adjustments invoice_nos of
             Inl e \<Rightarrow> Inl e | Inr sheets \<Rightarrow> Inr (SummaryXlsx sheets, st))
      | Credit_request \<Rightarrow>
          (case credit st adjustments invoice_nos of
             Inl e \<Rightarrow> Inl e | Inr adjs \<Rightarrow> Inr (CreditPdf adjs, st)))"

text \<open>
  \<^verbatim>\<open>post\<close> for a generation request, lines 316 to 343. An exception (\<open>Inl\<close>)
  ends the request and leaves the state as it was.
\<close>

definition post :: "state \<Rightarrow> post_data \<Rightarrow> py_error + (response \<times> state)" where
  "post st req =
     (case tolist (validate_form (inv_formset req)) of
        Inl e \<Rightarrow> Inl e
      | Inr invoice_no_list \<Rightarrow>
          (case savepath_form req of
             Invalid \<Rightarrow> Inr (FormInvalid, st)
           | Valid savepath_clean_data \<Rightarrow>
               (let billing_data = filter (\<lambda>r. cat r = cat_id req) (cache st)
                in case post_loop req (zip (drop_duplicates (map acct billing_data)) invoice_no_list) of
                     Inl e \<Rightarrow> Inl e
                   | Inr (include_job_mask, adjustments, invoice_nos) \<Rightarrow>
                       (case boolean_mask billing_data include_job_mask of
                          Inl e \<Rightarrow> Inl e
                        | Inr included \<Rightarrow> dispatch st req included adjustments invoice_nos))))"

section \<open>Auxiliary notions for the proofs\<close>

text \<open>The number written by a string of digits, leading zeros allowed.\<close>

definition dec_val :: "string \<Rightarrow> nat" where
  "dec_val s = foldl (\<lambda>a c. 10 * a + digit_val c) 0 s"


section \<open>Example runs\<close>

text \<open>
  A category \<^verbatim>\<open>Retail\<close> with primary key and number 5, three accounts without a
  provider, and one job for each of them; the account \<^verbatim>\<open>ici\<close> is the lab's own.
\<close>

definition example_job :: job where
  "example_job =
     \<lparr>acct = ''1001'', job_id = 1, cat = 5, enter_date = ''01/02/2020'',
      frame_name = ''Alpha'', frame_item_no = ''F100'', frame_name2 = ''Alpha II'',
      comment1 = [], ship_date = ''01/06/2020'', patient_name = ''Doe, Jane'',
      lens_price = 60, frame_price = 40, sales = 100\<rparr>"

definition retail_jobs :: "job list" where
  "retail_jobs =
     [example_job\<lparr>acct := ''1003'', job_id := 3\<rparr>,
      example_job,
      example_job\<lparr>acct := ''1002'', job_id := 2\<rparr>]"

definition retail_macola :: "macola_row list" where
  "retail_macola =
     [\<lparr>ma_acct = ''1001'', ma_provider = None, ma_tax_rate = None\<rparr>,
      \<lparr>ma_acct = ''1002'', ma_provider = None, ma_tax_rate = None\<rparr>,
      \<lparr>ma_acct = ''1003'', ma_provider = None, ma_tax_rate = None\<rparr>]"

definition example_acct :: macola_acct where
  "example_acct = \<lparr>a_name = ''Vision Center'', a_short_name = ''Vision''\<rparr>"

definition retail_state :: "string \<Rightarrow> state" where
  "retail_state start =
     \<lparr>categories = [5 \<mapsto> \<lparr>number = 5, description = ''Retail'', invoice_start = start\<rparr>],
      providers = Map.empty,
      accounts = [''1001'' \<mapsto> example_acct, ''1002'' \<mapsto> example_acct,
                  ''1003'' \<mapsto> example_acct, ''ici'' \<mapsto> example_acct],
      cache = merged_df retail_jobs retail_macola\<rparr>"

text \<open>
  An account with two jobs of sales 100.00 and 50.00 and the tax rate 0.0825.
\<close>

definition two_jobs :: "job list" where
  "two_jobs = [example_job, example_job\<lparr>job_id := 2, ship_date := ''01/03/2020'', sales := 50\<rparr>]"

definition taxed_macola :: "macola_row list" where
  "taxed_macola = [\<lparr>ma_acct = ''1001'', ma_provider = None, ma_tax_rate = Some (825 / 10000)\<rparr>]"


text \<open>Submitted adjustment formsets: two credits around an untouched form, and one debit.\<close>

definition credit_forms :: "adjustment option list" where
  "credit_forms =
     [Some \<lparr>kind = Credit, ref = ''J1'', des = ''remake'', amount = 20\<rparr>, None,
      Some \<lparr>kind = Credit, ref = ''J2'', des = ''late'', amount = 5\<rparr>]"

definition debit_forms :: "adjustment option list" where
  "debit_forms = [Some \<lparr>kind = Debit, ref = ''J1'', des = ''rush fee'', amount = 5\<rparr>]"

text \<open>
  A generation request for the category of the example: the invoice numbers as
  proposed from the starting code \<^verbatim>\<open>00015001\<close>, a valid save-path form, for every
  account an inclusion formset with the one flag \<open>inc\<close> and the adjustment formset
  \<open>adj\<close>.
\<close>

definition retail_request :: "action \<Rightarrow> bool \<Rightarrow> adjustment option list bound_form \<Rightarrow> post_data" where
  "retail_request act inc adj =
     \<lparr>cat_id = 5,
      inv_formset = Valid [Some ''00015001'', Some ''00015002'', Some ''00015003''],
      savepath_form = Valid \<lparr>save_to = ''/home/proxyserver/clerks/exports/2020'',
                             invoice_date = ''01/31/2020''\<rparr>,
      include_formsets = (\<lambda>acct_no. Valid [Some inc]),
      adj_formsets = (\<lambda>acct_no. adj),
      submit = act\<rparr>"

text \<open>The same accounts billed through a provider that exists.\<close>

definition provider_macola :: "macola_row list" where
  "provider_macola = map (\<lambda>m. m\<lparr>ma_provider := Some 7\<rparr>) retail_macola"

definition provider_state :: state where
  "provider_state =
     (retail_state ''00015001'')
       \<lparr>providers := [7 \<mapsto> \<lparr>p_name = ''State Hospital'', p_short_name = ''Hospital''\<rparr>],
        cache := merged_df retail_jobs provider_macola\<rparr>"

section \<open>Digits and decimal strings\<close>

lemma digit_char_props:
  assumes "d < 10"
  shows "is_digit (digit_char d)" and "digit_val (digit_char d) = d"
    and "\<not> is_space (digit_char d)" and "digit_char d \<noteq> CHR ''-''" and "digit_char d \<noteq> CHR ''+''"
proof -
  from assms have "d = 0 \<or> d = 1 \<or> d = 2 \<or> d = 3 \<or> d = 4 \<or> d = 5
    \<or> d = 6 \<or> d = 7 \<or> d = 8 \<or> d = 9" by arith
  then consider "d = 0" | "d = 1" | "d = 2" | "d = 3" | "d = 4" | "d = 5"
    | "d = 6" | "d = 7" | "d = 8" | "d = 9" by blast
  then have "is_digit (digit_char d) \<and> digit_val (digit_char d) = d \<and> \<not> is_space (digit_char d)
      \<and> digit_char d \<noteq> CHR ''-'' \<and> digit_char d \<noteq> CHR ''+''"
    by cases (simp_all add: is_digit_def digit_char_def digit_val_def is_space_def)
  then show "is_digit (digit_char d)" and "digit_val (digit_char d) = d"
    and "\<not> is_space (digit_char d)" and "digit_char d \<noteq> CHR ''-''" and "digit_char d \<noteq> CHR ''+''"
    by simp_all
qed

lemma is_digit_cases: "is_digit c \<Longrightarrow> \<exists>d<10. c = digit_char d"
  unfolding is_digit_def digit_char_def
  apply simp
  apply (elim disjE)
  apply (rule exI[of _ 0], simp)
  apply (rule exI[of _ 1], simp)
  apply (rule exI[of _ 2], simp)
  apply (rule exI[of _ 3], simp)
  apply (rule exI[of _ 4], simp)
  apply (rule exI[of _ 5], simp)
  apply (rule exI[of _ 6], simp)
  apply (rule exI[of _ 7], simp)
  apply (rule exI[of _ 8], simp)
  apply (rule exI[of _ 9], simp)
  done

lemma digit_not_special:
  assumes "is_digit c"
  shows "\<not> is_space c" and "c \<noteq> CHR ''-''" and "c \<noteq> CHR ''+''" and "digit_val c < 10"
  using is_digit_cases[OF assms] digit_char_props by auto

lemma str_nat_digits: "list_all is_digit (str_nat n)"
proof (induction n rule: str_nat.induct)
  case (1 n)
  show ?case
  proof (cases "n < 10")
    case True
    then show ?thesis by (subst str_nat.simps) (simp add: digit_char_props)
  next
    case False
    with 1 have "list_all is_digit (str_nat (n div 10))" by simp
    with False show ?thesis by (subst str_nat.simps) (simp add: digit_char_props)
  qed
qed

lemma str_nat_nonempty: "str_nat n \<noteq> []"
  by (subst str_nat.simps) simp

lemma dec_val_append: "dec_val (s @ [c]) = 10 * dec_val s + digit_val c"
  by (simp add: dec_val_def)

lemma dec_val_str_nat: "dec_val (str_nat n) = n"
proof (induction n rule: str_nat.induct)
  case (1 n)
  show ?case
  proof (cases "n < 10")
    case True
    then have "str_nat n = [digit_char n]" by (subst str_nat.simps) simp
    with True show ?thesis by (simp add: dec_val_def digit_char_props)
  next
    case False
    with 1 have IH: "dec_val (str_nat (n div 10)) = n div 10" by simp
    from False have "str_nat n = str_nat (n div 10) @ [digit_char (n mod 10)]"
      by (subst str_nat.simps) simp
    then show ?thesis by (simp add: dec_val_append IH digit_char_props)
  qed
qed

lemma length_str_nat: "n < 10 ^ k \<Longrightarrow> 0 < k \<Longrightarrow> length (str_nat n) \<le> k"
proof (induction n arbitrary: k rule: str_nat.induct)
  case (1 n)
  show ?case
  proof (cases "n < 10")
    case True
    then have "str_nat n = [digit_char n]" by (subst str_nat.simps) simp
    with "1.prems" show ?thesis by simp
  next
    case False
    from False have eq: "str_nat n = str_nat (n div 10) @ [digit_char (n mod 10)]"
      by (subst str_nat.simps) simp
    from False "1.prems" have "1 < k" by (cases "k = 1") auto
    then obtain k' where k: "k = Suc k'" "0 < k'" by (cases k) auto
    with "1.prems" have "n div 10 < 10 ^ k'" by (simp add: less_mult_imp_div_less)
    with "1.IH"[OF False] k have "length (str_nat (n div 10)) \<le> k'" by simp
    with eq k show ?thesis by simp
  qed
qed

lemma length_str_nat_ge: "10 ^ k \<le> n \<Longrightarrow> k < length (str_nat n)"
proof (induction n arbitrary: k rule: str_nat.induct)
  case (1 n)
  show ?case
  proof (cases "n < 10")
    case True
    with "1.prems" have "(10::nat) ^ k < 10 ^ 1" by simp
    then have "k < 1" by (rule power_less_imp_less_exp[rotated]) simp
    then show ?thesis using str_nat_nonempty[of n] by simp
  next
    case False
    from False have eq: "str_nat n = str_nat (n div 10) @ [digit_char (n mod 10)]"
      by (subst str_nat.simps) simp
    show ?thesis
    proof (cases k)
      case 0
      then show ?thesis using str_nat_nonempty[of n] by simp
    next
      case (Suc k')
      with "1.prems" have "10 ^ k' \<le> n div 10" by simp
      with "1.IH"[OF False] have "k' < length (str_nat (n div 10))" by simp
      with eq Suc show ?thesis by simp
    qed
  qed
qed

lemma after_digit_digits:
  "list_all is_digit s \<Longrightarrow> after_digit a s = Some (foldl (\<lambda>a c. 10 * a + digit_val c) a s)"
  by (induction a s rule: after_digit.induct) auto

lemma parse_digits_digits:
  assumes "list_all is_digit s" "s \<noteq> []"
  shows "parse_digits s = Some (dec_val s)"
  using assms by (cases s) (auto simp: parse_digits_def dec_val_def after_digit_digits)

lemma strip_digits:
  assumes "list_all is_digit s"
  shows "strip s = s"
proof -
  from assms have front: "dropWhile is_space s = s"
    by (cases s) (auto simp: digit_not_special)
  from assms have "dropWhile is_space (rev s) = rev s"
    by (cases s rule: rev_cases) (auto simp: digit_not_special)
  with front show ?thesis by (simp add: strip_def)
qed

lemma py_int_digits:
  assumes "list_all is_digit s" "s \<noteq> []"
  shows "py_int s = Inr (int (dec_val s))"
proof -
  from assms obtain c cs where s: "s = c # cs" by (cases s) auto
  with assms have "c \<noteq> CHR ''-''" "c \<noteq> CHR ''+''" by (auto simp: digit_not_special)
  with s assms show ?thesis
    by (simp add: py_int_def strip_digits parse_digits_digits)
qed


lemma dec_val_zeros: "dec_val (replicate k CHR ''0'' @ s) = dec_val s"
proof -
  have "foldl (\<lambda>a c. 10 * a + digit_val c) 0 (replicate k CHR ''0'') = 0"
    by (induction k) (simp_all add: digit_val_def)
  then show ?thesis by (simp add: dec_val_def)
qed

lemma rjust_digits: "list_all is_digit (rjust 4 CHR ''0'' (str_nat m))"
proof -
  have "is_digit CHR ''0''" by (simp add: is_digit_def)
  then show ?thesis
    using str_nat_digits[of m] by (auto simp: rjust_def list_all_iff)
qed

lemma py_int_rjust: "py_int (rjust 4 CHR ''0'' (str_nat m)) = Inr (int m)"
proof -
  have "list_all is_digit (rjust 4 CHR ''0'' (str_nat m))" by (rule rjust_digits)
  moreover have "rjust 4 CHR ''0'' (str_nat m) \<noteq> []"
    by (simp add: rjust_def str_nat_nonempty)
  ultimately have "py_int (rjust 4 CHR ''0'' (str_nat m)) = Inr (int (dec_val (rjust 4 CHR ''0'' (str_nat m))))"
    by (rule py_int_digits)
  then show ?thesis by (simp add: rjust_def dec_val_zeros dec_val_str_nat)
qed

lemma length_rjust: "length (rjust 4 c (str_nat m)) = 4 \<longleftrightarrow> m \<le> 9999"
proof
  assume "length (rjust 4 c (str_nat m)) = 4"
  then have "length (str_nat m) \<le> 4" by (simp add: rjust_def)
  with length_str_nat_ge[of 4 m] show "m \<le> 9999" by (cases "m \<le> 9999") auto
next
  assume "m \<le> 9999"
  then have "m < 10 ^ 4" by simp
  then have "length (str_nat m) \<le> 4" by (rule length_str_nat) simp
  then show "length (rjust 4 c (str_nat m)) = 4" by (simp add: rjust_def)
qed

lemma fmt_nat: "fmt pfx (int m) = pfx @ rjust 4 CHR ''0'' (str_nat m)"
  by (simp add: fmt_def py_str_def)

lemma slices_append:
  assumes "length sfx = 4"
  shows "last4 (pfx @ sfx) = sfx" and "but_last4 (pfx @ sfx) = pfx"
  using assms by (simp_all add: last4_def but_last4_def)

section \<open>Properties of the numbering\<close>

text \<open>
  Claim C2, as amended. For a starting code made of a four-character prefix and four
  digits, and for every count \<open>n\<close>, the allocator returns \<open>n\<close> distinct codes. The
  code at position \<open>i\<close> is the prefix followed by the decimal digits of \<open>start + i\<close>,
  filled with zeros on the left up to four digits: its suffix consists of digits only
  and reads as \<open>start + i\<close>, so the numbers are consecutive. A code has eight
  characters exactly when its number is at most 9999; beyond that the suffix is the
  number written with all its digits, and the code has more than eight characters.
\<close>

theorem allocator_codes:
  assumes "length pfx = 4" and "length sfx = 4" and "list_all is_digit sfx"
  shows "\<exists>start codes.
           py_int sfx = Inr (int start) \<and> dec_val sfx = start \<and>
           invoice_no_range (pfx @ sfx) n = Inr codes \<and>
           length codes = n \<and> distinct codes \<and>
           (\<forall>i<n. take 4 (codes ! i) = pfx \<and>
                  drop 4 (codes ! i) = rjust 4 CHR ''0'' (str_nat (start + i)) \<and>
                  list_all is_digit (drop 4 (codes ! i)) \<and>
                  dec_val (drop 4 (codes ! i)) = start + i \<and>
                  py_int (drop 4 (codes ! i)) = Inr (int (start + i)) \<and>
                  (length (codes ! i) = 8 \<longleftrightarrow> start + i \<le> 9999) \<and>
                  (9999 < start + i \<longrightarrow>
                     drop 4 (codes ! i) = str_nat (start + i) \<and> 8 < length (codes ! i)))"
proof -
  define start where "start = dec_val sfx"
  define codes where "codes = map (fmt pfx) (sequence_range (int start) n)"
  from assms have sfx: "py_int sfx = Inr (int start)"
    unfolding start_def by (intro py_int_digits) auto
  with assms have run: "invoice_no_range (pfx @ sfx) n = Inr codes"
    by (simp add: invoice_no_range_def slices_append codes_def)
  have len: "length codes = n" by (simp add: codes_def sequence_range_def)
  have nth: "codes ! i = pfx @ rjust 4 CHR ''0'' (str_nat (start + i))" if "i < n" for i
  proof -
    from that have "codes ! i = fmt pfx (int (start + i))"
      by (simp add: codes_def sequence_range_def)
    then show ?thesis by (simp only: fmt_nat)
  qed
  have each: "take 4 (codes ! i) = pfx \<and>
      drop 4 (codes ! i) = rjust 4 CHR ''0'' (str_nat (start + i)) \<and>
      list_all is_digit (drop 4 (codes ! i)) \<and>
      dec_val (drop 4 (codes ! i)) = start + i \<and>
      py_int (drop 4 (codes ! i)) = Inr (int (start + i)) \<and>
      (length (codes ! i) = 8 \<longleftrightarrow> start + i \<le> 9999) \<and>
      (9999 < start + i \<longrightarrow>
         drop 4 (codes ! i) = str_nat (start + i) \<and> 8 < length (codes ! i))" if "i < n" for i
  proof -
    let ?m = "start + i"
    from nth[OF that] assms(1) have pre: "take 4 (codes ! i) = pfx"
      and suf: "drop 4 (codes ! i) = rjust 4 CHR ''0'' (str_nat ?m)"
      and total: "length (codes ! i) = 4 + length (rjust 4 CHR ''0'' (str_nat ?m))"
      by simp_all
    have dig: "list_all is_digit (rjust 4 CHR ''0'' (str_nat ?m))" by (rule rjust_digits)
    have val: "dec_val (rjust 4 CHR ''0'' (str_nat ?m)) = ?m"
      by (simp add: rjust_def dec_val_zeros dec_val_str_nat)
    have eight: "length (codes ! i) = 8 \<longleftrightarrow> ?m \<le> 9999"
      using total length_rjust[of "CHR ''0''" ?m] by simp
    have long: "drop 4 (codes ! i) = str_nat ?m \<and> 8 < length (codes ! i)" if "9999 < ?m"
    proof -
      from that have "10 ^ 4 \<le> ?m" by simp
      then have "4 < length (str_nat ?m)" by (rule length_str_nat_ge)
      with suf total show ?thesis by (simp add: rjust_def)
    qed
    from pre suf dig val eight long show ?thesis by (simp add: py_int_rjust)
  qed
  have "distinct codes"
    unfolding distinct_conv_nth len
  proof (intro allI impI)
    fix i j assume ij: "i < n" "j < n" "i \<noteq> j"
    show "codes ! i \<noteq> codes ! j"
    proof
      assume eq: "codes ! i = codes ! j"
      from each[OF ij(1)] have "dec_val (drop 4 (codes ! i)) = start + i" by blast
      moreover from each[OF ij(2)] have "dec_val (drop 4 (codes ! j)) = start + j" by blast
      ultimately have "start + i = start + j" by (simp only: eq)
      with ij(3) show False by simp
    qed
  qed
  moreover have "dec_val sfx = start" by (simp add: start_def)
  ultimately show ?thesis using sfx run len each by blast
qed

lemmas numbering_eval = str_nat.simps py_str_def is_digit_def digit_val_def digit_char_def is_space_def strip_def
  parse_digits_def py_int_def but_last4_def last4_def rjust_def fmt_def findall_digits_def py_max_def
  sequence_range_def invoice_no_range_def next_invoice_start_def upt_rec Let_def

theorem allocator_codes_witness:
  "length ''RT01'' = 4 \<and> length ''9998'' = 4 \<and> list_all is_digit ''9998'' \<and>
   invoice_no_range (''RT01'' @ ''9998'') 3 = Inr [''RT019998'', ''RT019999'', ''RT0110000'']"
proof -
  have h: "length ''RT01'' = 4" "length ''9998'' = 4" "list_all is_digit ''9998''"
    by (simp_all add: is_digit_def)
  from allocator_codes[OF h, of 3] have "\<exists>c. invoice_no_range (''RT01'' @ ''9998'') 3 = Inr c" by blast
  moreover have "invoice_no_range (''RT01'' @ ''9998'') 3 = Inr [''RT019998'', ''RT019999'', ''RT0110000'']"
    by (simp add: numbering_eval)
  ultimately show ?thesis using h by simp
qed

text \<open>
  Claim C2 as stated fails past 9999: from the starting code \<^verbatim>\<open>RT019999\<close> the second
  of two codes has nine characters.
\<close>

theorem allocator_length_counterexample:
  "invoice_no_range ''RT019999'' 2 = Inr [''RT019999'', ''RT0110000''] \<and> length ''RT0110000'' = 9"
  by (simp add: numbering_eval)

section \<open>Properties of the joined table\<close>

lemmas frame_eval = example_job_def retail_jobs_def retail_macola_def example_acct_def retail_state_def
  two_jobs_def taxed_macola_def
  merged_df_def sort_values_def sort_by_def derive_row_def fillna_def pd_merge_def
  job.defs billing_row.defs Let_def groupby_def set_totals_def get_object_def drop_duplicates_def
















section \<open>Properties of the totals\<close>













lemmas review_eval = frame_eval numbering_eval get_billing_data_def cat_step_def








section \<open>Properties of the submitted forms\<close>
















lemmas forms_eval = credit_forms_def debit_forms_def validate_adjustments_def validate_form_def signed_def
  acct_adjs_sum_def adjusted_total_def getitem_def included_accts_def Let_def


section \<open>Properties of the generation requests\<close>

lemmas request_eval = review_eval forms_eval retail_request_def provider_macola_def provider_state_def
  post_def tolist_def boolean_mask_def dispatch_def invoices_def groupby_selection_def
  summary_def credit_def register_def str_or_def



lemma post_keeps_state:
  assumes "post st req = Inr (resp, st')" and "submit req \<noteq> Invoices"
  shows "st' = st"
  using assms
  by (auto simp: post_def dispatch_def Let_def
      split: sum.splits bound_form.splits prod.splits action.splits)

lemma post_changes_state:
  assumes "post st req = Inr (resp, st')" and "st' \<noteq> st"
  shows "submit req = Invoices \<and> resp = InvoicesPdf \<and>
         (\<exists>invoice_no_list. validate_form (inv_formset req) = Frame invoice_no_list) \<and>
         savepath_form req \<noteq> Invalid"
  using assms
  by (auto simp: post_def dispatch_def tolist_def Let_def
      split: sum.splits bound_form.splits prod.splits action.splits validated.splits)


lemma included_jobs_stop_invoices:
  "post (retail_state ''00015001'') (retail_request Invoices True (Valid [None])) = Inl AttributeError"
  by (simp add: request_eval del: not_None_eq set_filter)

lemma register_example:
  "post provider_state (retail_request Register True (Valid [None])) =
     Inr (RegisterPdf
            [AcctRow ''00015001'' ''1001'' 100 0 0 100,
             AcctRow ''00015002'' ''1002'' 100 0 0 100,
             AcctRow ''00015003'' ''1003'' 100 0 0 100,
             SubtotalRow 300 0 0 300,
             TotalRow 300 0 0 300], provider_state)"
  by (simp add: request_eval del: not_None_eq set_filter)







end
